theory Spec2Isabelle
  imports Complex_Main
begin

section \<open>Exit Vector: maze generation and ball physics\<close>

text \<open>
  A shallow embedding of \<^verbatim>\<open>src/js/config.js\<close>, \<^verbatim>\<open>src/js/maze.js\<close> and
  \<^verbatim>\<open>src/js/physics.js\<close>.

  JavaScript numbers are IEEE-754 doubles. Quantities that the code keeps integral (grid
  coordinates, column and row counts, the cell size, scores, the state of the random
  number generator) are modelled by \<open>int\<close>; pixel positions, velocities and the canvas size
  are modelled by \<open>real\<close>, that is, with exact arithmetic: the rounding of double
  arithmetic is not part of the model, except in the random number generator, where it
  decides the low bits of the state and is written out.
\<close>

subsection \<open>Configuration (config.js)\<close>

record physics_config =
  gravityMultiplier :: real
  friction :: real
  ballRadius :: real
  maxVelocity :: real
  bounceFactor :: real
  velocityThreshold :: real

definition PHYSICS_CONFIG :: physics_config where
  "PHYSICS_CONFIG =
     \<lparr>gravityMultiplier = 0.8, friction = 0.97, ballRadius = 10, maxVelocity = 12,
      bounceFactor = 0.3, velocityThreshold = 0.01\<rparr>"

record exit_config =
  zoneHeight :: int
  zoneCount :: int

definition EXIT_CONFIG :: exit_config where
  "EXIT_CONFIG = \<lparr>zoneHeight = 45, zoneCount = 5\<rparr>"

record visual_config =
  trailLength :: nat

definition VISUAL_CONFIG :: visual_config where
  "VISUAL_CONFIG = \<lparr>trailLength = 6\<rparr>"

subsection \<open>MazeGenerator.init: the size of the maze (maze.js, lines 145 to 207)\<close>

text \<open>
  The first half of \<^verbatim>\<open>init\<close> chooses the margins, the number of columns and rows and the
  cell size. \<^verbatim>\<open>Math.floor(level / 3)\<close> on an integral level is \<open>level div 3\<close>;
  \<^verbatim>\<open>n % 2 === 0\<close> on an integer is \<open>even n\<close>.
\<close>

record layout =
  lay_cols :: int
  lay_rows :: int
  lay_cellSize :: int
  lay_marginLeft :: int
  lay_marginTop :: int
  lay_availableWidth :: real
  lay_availableHeight :: real

definition init_layout :: "int \<Rightarrow> real \<Rightarrow> real \<Rightarrow> layout" where
  "init_layout level canvasWidth canvasHeight =
    (let isLandscape = canvasWidth > canvasHeight;
         exitZoneHeight = zoneHeight EXIT_CONFIG;
         (marginLeft, marginRight, marginTop, marginBottom) =
            (if isLandscape then (120, 20, 20, 100) else (20, 20, 100, (100::int)));
         availableWidth = canvasWidth - of_int marginLeft - of_int marginRight;
         availableHeight =
            canvasHeight - of_int marginTop - of_int marginBottom - of_int exitZoneHeight;
         targetCols0 = min 21 (11 + (level div 3) * 2);
         targetRows0 = min 25 (13 + (level div 4) * 2);
         targetCols = (if even targetCols0 then targetCols0 + 1 else targetCols0);
         targetRows = (if even targetRows0 then targetRows0 + 1 else targetRows0);
         minCellSize = 16;
         cellSize = \<lfloor>min (availableWidth / of_int targetCols)
                             (availableHeight / of_int targetRows)\<rfloor>
     in if cellSize < minCellSize then
          (let cellSize' = minCellSize;
               cols1 = \<lfloor>availableWidth / of_int cellSize'\<rfloor>;
               rows1 = \<lfloor>availableHeight / of_int cellSize'\<rfloor>;
               cols2 = (if even cols1 then cols1 - 1 else cols1);
               rows2 = (if even rows1 then rows1 - 1 else rows1)
           in \<lparr>lay_cols = max 9 cols2, lay_rows = max 9 rows2, lay_cellSize = cellSize',
               lay_marginLeft = marginLeft, lay_marginTop = marginTop,
               lay_availableWidth = availableWidth, lay_availableHeight = availableHeight\<rparr>)
        else
          \<lparr>lay_cols = targetCols, lay_rows = targetRows, lay_cellSize = cellSize,
           lay_marginLeft = marginLeft, lay_marginTop = marginTop,
           lay_availableWidth = availableWidth, lay_availableHeight = availableHeight\<rparr>)"

subsection \<open>Cells, directions and the grid (maze.js, lines 22 to 38)\<close>

datatype cell = WALL | PATH | ENTRY | EXIT

record direction =
  dir_dx :: int
  dir_dy :: int
  dir_name :: string

definition DIRECTIONS :: "direction list" where
  "DIRECTIONS =
     [\<lparr>dir_dx = 0, dir_dy = -1, dir_name = ''up''\<rparr>,
      \<lparr>dir_dx = 1, dir_dy = 0, dir_name = ''right''\<rparr>,
      \<lparr>dir_dx = 0, dir_dy = 1, dir_name = ''down''\<rparr>,
      \<lparr>dir_dx = -1, dir_dy = 0, dir_name = ''left''\<rparr>]"

text \<open>
  \<^verbatim>\<open>this.grid\<close> is an array of row arrays, read and written by index only. A JavaScript
  array is a partial map from indices to values: reading an index that was never written
  gives \<^verbatim>\<open>undefined\<close>, writing one stores the value (extending the array), and reading
  or writing \<^verbatim>\<open>this.grid[y][x]\<close> when \<^verbatim>\<open>this.grid[y]\<close> is \<^verbatim>\<open>undefined\<close> throws a
  TypeError. So a row is a map from column indices to cells (\<open>None\<close> is
  \<^verbatim>\<open>undefined\<close>), and the grid a map from row indices to rows. A computation that can throw
  returns an \<open>option\<close>: \<open>None\<close> means that a TypeError was thrown.
\<close>

type_synonym row = "int \<Rightarrow> cell option"
type_synonym grid = "int \<Rightarrow> row option"

definition grid_get :: "grid \<Rightarrow> int \<Rightarrow> int \<Rightarrow> cell option option" where
  \<comment> \<open>\<^verbatim>\<open>this.grid[y][x]\<close>\<close>
  "grid_get g x y = (case g y of None \<Rightarrow> None | Some r \<Rightarrow> Some (r x))"

definition grid_set :: "grid \<Rightarrow> int \<Rightarrow> int \<Rightarrow> cell \<Rightarrow> grid option" where
  \<comment> \<open>\<^verbatim>\<open>this.grid[y][x] = c\<close>\<close>
  "grid_set g x y c = (case g y of None \<Rightarrow> None | Some r \<Rightarrow> Some (g(y \<mapsto> r(x \<mapsto> c))))"

definition new_grid :: "int \<Rightarrow> int \<Rightarrow> grid" where
  \<comment> \<open>the two loops of \<^verbatim>\<open>_generateMaze\<close>: \<open>rows\<close> rows of \<open>cols\<close> walls\<close>
  "new_grid cols rows =
     (\<lambda>y. if 0 \<le> y \<and> y < rows
          then Some (\<lambda>x. if 0 \<le> x \<and> x < cols then Some WALL else None)
          else None)"

subsection \<open>SeededRandom (maze.js, lines 44 to 85)\<close>

text \<open>
  The state of the generator is \<^verbatim>\<open>this.seed\<close>, an integer: \<^verbatim>\<open>Date.now()\<close> at first, and
  below \<open>2^31\<close> after the first call of \<^verbatim>\<open>next\<close>. The product
  \<^verbatim>\<open>this.seed * 1103515245\<close> can exceed \<open>2^53\<close>, where a double no longer holds every
  integer: the product, and then the sum with 12345, are rounded to 53 significant bits
  (to nearest, ties to even) before \<^verbatim>\<open>& 0x7fffffff\<close> takes the low 31 bits of the result.
  \<open>round_double\<close> is that rounding on integers (overflow to infinity, beyond
  \<open>2^1024\<close>, is not modelled).
\<close>

function drop_bits :: "int \<Rightarrow> nat" where
  "drop_bits n = (if n < 2 ^ 53 then 0 else Suc (drop_bits (n div 2)))"
  by pat_completeness auto
termination
  by (relation "measure nat") auto

definition round_double :: "int \<Rightarrow> int" where
  "round_double n =
     (let a = \<bar>n\<bar>;
          e = drop_bits a;
          q = a div 2 ^ e;
          r = a mod 2 ^ e;
          q' = (if 2 * r > 2 ^ e \<or> (2 * r = 2 ^ e \<and> odd q) then q + 1 else q)
      in sgn n * (q' * 2 ^ e))"

definition next_seed :: "int \<Rightarrow> int" where
  \<comment> \<open>\<^verbatim>\<open>(this.seed * 1103515245 + 12345) & 0x7fffffff\<close>\<close>
  "next_seed s = round_double (round_double (s * 1103515245) + 12345) mod 2147483648"

definition rng_next :: "int \<Rightarrow> real \<times> int" where
  \<comment> \<open>\<^verbatim>\<open>next()\<close>: the value returned and the new seed\<close>
  "rng_next s = (let s' = next_seed s in (of_int s' / 2147483647, s'))"

definition nextInt :: "int \<Rightarrow> int \<Rightarrow> int \<Rightarrow> int \<times> int" where
  \<comment> \<open>\<^verbatim>\<open>Math.floor(this.next() * (max - min)) + min\<close>\<close>
  "nextInt lo hi s = (let (u, s') = rng_next s in (\<lfloor>u * of_int (hi - lo)\<rfloor> + lo, s'))"

text \<open>
  \<^verbatim>\<open>shuffle\<close> works on a copy of its argument. An element of a JavaScript array may be
  \<^verbatim>\<open>undefined\<close> (\<open>None\<close>): reading past the end gives \<^verbatim>\<open>undefined\<close> and writing past the
  end extends the array, which is what the swap does should \<^verbatim>\<open>nextInt(0, i + 1)\<close> ever
  return \<open>i + 1\<close>. \<^verbatim>\<open>nextInt(0, i + 1)\<close> is never negative (\<open>nextInt_lower\<close> below), so
  the index is a \<open>nat\<close>.
\<close>

definition js_get :: "'a option list \<Rightarrow> nat \<Rightarrow> 'a option" where
  "js_get xs j = (if j < length xs then xs ! j else None)"

definition js_set :: "'a option list \<Rightarrow> nat \<Rightarrow> 'a option \<Rightarrow> 'a option list" where
  "js_set xs j v =
     (if j < length xs then xs[j := v] else xs @ replicate (j - length xs) None @ [v])"

primrec shuffle_loop :: "nat \<Rightarrow> 'a option list \<Rightarrow> int \<Rightarrow> 'a option list \<times> int" where
  "shuffle_loop 0 result s = (result, s)"
| "shuffle_loop (Suc k) result s =
     (let i = Suc k;
          (j, s') = nextInt 0 (int i + 1) s;
          a = js_get result (nat j);
          b = js_get result i
      in shuffle_loop k (js_set (js_set result i a) (nat j) b) s')"

definition shuffle :: "'a list \<Rightarrow> int \<Rightarrow> 'a option list \<times> int" where
  "shuffle array s = shuffle_loop (length array - 1) (map Some array) s"

subsection \<open>Recursive backtracking (maze.js, lines 229 to 281)\<close>

text \<open>
  \<^verbatim>\<open>_carve\<close> reads \<^verbatim>\<open>this.cols\<close> and \<^verbatim>\<open>this.rows\<close> and changes \<^verbatim>\<open>this.grid\<close> and the
  seed of \<^verbatim>\<open>this.rng\<close>: the model takes the first two as arguments and passes the pair of
  the last two. \<open>carve_dirs\<close> is the \<^verbatim>\<open>for (const dir of directions)\<close> loop of the call at
  \<open>(x, y)\<close>; reading \<^verbatim>\<open>dir.dx\<close> of an \<^verbatim>\<open>undefined\<close> element throws.
\<close>

function carve :: "int \<Rightarrow> int \<Rightarrow> int \<Rightarrow> int \<Rightarrow> grid \<times> int \<Rightarrow> (grid \<times> int) option"
  and carve_dirs ::
    "int \<Rightarrow> int \<Rightarrow> int \<Rightarrow> int \<Rightarrow> direction option list \<Rightarrow> grid \<times> int \<Rightarrow> (grid \<times> int) option"
where
  "carve cols rows x y (g, s) =
     (case grid_set g x y PATH of
        None \<Rightarrow> None
      | Some g1 \<Rightarrow>
          (case shuffle DIRECTIONS s of
             (directions, s1) \<Rightarrow> carve_dirs cols rows x y directions (g1, s1)))"
| "carve_dirs cols rows x y [] (g, s) = Some (g, s)"
| "carve_dirs cols rows x y (None # ds) (g, s) = None"
| "carve_dirs cols rows x y (Some dir # ds) (g, s) =
     (let nx = x + dir_dx dir * 2;
          ny = y + dir_dy dir * 2
      in if nx > 0 \<and> nx < cols - 1 \<and> ny > 0 \<and> ny < rows - 1 then
           (case grid_get g nx ny of
              None \<Rightarrow> None
            | Some c \<Rightarrow>
                if c = Some WALL then
                  (case grid_set g (x + dir_dx dir) (y + dir_dy dir) PATH of
                     None \<Rightarrow> None
                   | Some g1 \<Rightarrow>
                       (case carve cols rows nx ny (g1, s) of
                          None \<Rightarrow> None
                        | Some st \<Rightarrow> carve_dirs cols rows x y ds st))
                else carve_dirs cols rows x y ds (g, s))
         else carve_dirs cols rows x y ds (g, s))"
  by pat_completeness auto

text \<open>
  Termination: every recursive call of \<open>carve\<close> is on an interior cell that is still a
  wall, and \<open>carve\<close> first turns its cell into a path, so the number of interior walls
  decreases; \<open>carve_dirs\<close> continues with a shorter list and no more walls than before.
\<close>

definition walls_left :: "int \<Rightarrow> int \<Rightarrow> grid \<Rightarrow> nat" where
  "walls_left cols rows g =
     card {(x, y). 0 < x \<and> x < cols - 1 \<and> 0 < y \<and> y < rows - 1 \<and> grid_get g x y = Some (Some WALL)}"

definition marked :: "grid \<Rightarrow> int \<Rightarrow> int \<Rightarrow> grid" where
  "marked g x y = (case grid_set g x y PATH of None \<Rightarrow> g | Some g' \<Rightarrow> g')"

lemma grid_get_set:
  "grid_set g x y c = Some g' \<Longrightarrow>
   grid_get g' x' y' = (if x' = x \<and> y' = y then Some (Some c) else grid_get g x' y')"
  by (cases "g y") (auto simp: grid_get_def grid_set_def)

lemma finite_interior:
  "finite {(x::int, y::int). 0 < x \<and> x < cols - 1 \<and> 0 < y \<and> y < rows - 1 \<and> P x y}"
proof -
  have "{(x::int, y::int). 0 < x \<and> x < cols - 1 \<and> 0 < y \<and> y < rows - 1 \<and> P x y}
          \<subseteq> {0..cols} \<times> {0..rows}" by auto
  then show ?thesis by (rule finite_subset) simp
qed

lemma walls_left_set_le:
  assumes "grid_set g x y PATH = Some g'"
  shows "walls_left cols rows g' \<le> walls_left cols rows g"
  unfolding walls_left_def
  by (rule card_mono[OF finite_interior]) (auto simp: grid_get_set[OF assms])

lemma walls_left_set_less:
  assumes "grid_set g x y PATH = Some g'"
    and "0 < x" "x < cols - 1" "0 < y" "y < rows - 1" "grid_get g x y = Some (Some WALL)"
  shows "walls_left cols rows g' < walls_left cols rows g"
  unfolding walls_left_def
proof (rule psubset_card_mono[OF finite_interior])
  show "{(x, y). 0 < x \<and> x < cols - 1 \<and> 0 < y \<and> y < rows - 1 \<and> grid_get g' x y = Some (Some WALL)}
      \<subset> {(x, y). 0 < x \<and> x < cols - 1 \<and> 0 < y \<and> y < rows - 1 \<and> grid_get g x y = Some (Some WALL)}"
    using assms(2-) by (auto simp: grid_get_set[OF assms(1)])
qed

lemma walls_left_marked_le: "walls_left cols rows (marked g x y) \<le> walls_left cols rows g"
  by (auto simp: marked_def walls_left_set_le split: option.splits)

lemma walls_left_marked_less:
  assumes "0 < x" "x < cols - 1" "0 < y" "y < rows - 1" "grid_get g x y = Some (Some WALL)"
  shows "walls_left cols rows (marked g x y) < walls_left cols rows g"
proof -
  obtain g' where "grid_set g x y PATH = Some g'"
    using assms(5) by (auto simp: grid_get_def grid_set_def split: option.splits)
  then show ?thesis using walls_left_set_less[OF _ assms] by (simp add: marked_def)
qed

lemma carve_walls_left_partial:
  "carve_carve_dirs_dom (Inl (cols, rows, x, y, st)) \<Longrightarrow>
     carve cols rows x y st = Some st' \<Longrightarrow> walls_left cols rows (fst st') \<le> walls_left cols rows (fst st)"
  "carve_carve_dirs_dom (Inr (cols, rows, x, y, ds, st)) \<Longrightarrow>
     carve_dirs cols rows x y ds st = Some st' \<Longrightarrow> walls_left cols rows (fst st') \<le> walls_left cols rows (fst st)"
proof (induction cols rows x y st and cols rows x y ds st arbitrary: st' and st' rule: carve_carve_dirs.pinduct)
  case (1 cols rows x y g s)
  from "1.prems" "1.hyps" obtain g1 dirs s1 where
    g1: "grid_set g x y PATH = Some g1" and sh: "(dirs, s1) = shuffle DIRECTIONS s"
    and r: "carve_dirs cols rows x y dirs (g1, s1) = Some st'"
    by (auto simp: carve.psimps split: option.splits prod.splits)
  from "1.IH"[OF g1 sh r] walls_left_set_le[OF g1, where cols=cols and rows=rows] show ?case by simp
next
  case (2 cols rows x y g s)
  then show ?case by (simp add: carve_dirs.psimps)
next
  case (3 cols rows x y ds g s)
  then show ?case by (simp add: carve_dirs.psimps)
next
  case (4 cols rows x y dir ds g s)
  let ?nx = "x + dir_dx dir * 2" and ?ny = "y + dir_dy dir * 2"
  show ?case
  proof (cases "0 < ?nx \<and> ?nx < cols - 1 \<and> 0 < ?ny \<and> ?ny < rows - 1")
    case False
    with "4.prems" "4.hyps" have "carve_dirs cols rows x y ds (g, s) = Some st'"
      by (simp add: carve_dirs.psimps Let_def)
    from "4.IH"(4)[OF refl refl False this] show ?thesis .
  next
    case True
    show ?thesis
    proof (cases "grid_get g ?nx ?ny = Some (Some WALL)")
      case False
      with True "4.prems" "4.hyps" obtain c where c: "grid_get g ?nx ?ny = Some c" "c \<noteq> Some WALL"
        and r: "carve_dirs cols rows x y ds (g, s) = Some st'"
        by (auto simp: carve_dirs.psimps Let_def split: option.splits if_splits)
      from "4.IH"(3)[OF refl refl True c r] show ?thesis .
    next
      case W: True
      with True "4.prems" "4.hyps" obtain g1 st1 where
        g1: "grid_set g (x + dir_dx dir) (y + dir_dy dir) PATH = Some g1"
        and c: "carve cols rows ?nx ?ny (g1, s) = Some st1"
        and r: "carve_dirs cols rows x y ds st1 = Some st'"
        by (auto simp: carve_dirs.psimps Let_def split: option.splits if_splits)
      from "4.IH"(1)[OF refl refl True W refl g1 c] have "walls_left cols rows (fst st1) \<le> walls_left cols rows g1"
        by simp
      moreover from "4.IH"(2)[OF refl refl True W refl g1 c r]
      have "walls_left cols rows (fst st') \<le> walls_left cols rows (fst st1)" .
      ultimately show ?thesis using walls_left_set_le[OF g1, where cols=cols and rows=rows] by simp
    qed
  qed
qed

termination carve
proof (relation "inv_image (less_than <*lex*> less_than)
    (\<lambda>a. case a of
        Inl (cols, rows, x, y, g, s) \<Rightarrow> (2 * walls_left cols rows (marked g x y) + 1, 0)
      | Inr (cols, rows, x, y, ds, g, s) \<Rightarrow> (2 * walls_left cols rows g, length ds))", goal_cases)
  case 1
  then show ?case by (intro wf_inv_image wf_lex_prod wf_less_than)
next
  case (2 cols rows x y g s g1 dirs s1)
  then show ?case by (simp add: marked_def)
next
  case (3 cols rows x y dir ds g s nx ny c g1)
  have "grid_get g1 nx ny = Some (Some WALL) \<or> grid_get g1 nx ny = Some (Some PATH)"
    using 3 by (auto simp: grid_get_set[OF 3(6)])
  then have "walls_left cols rows (marked g1 nx ny) < walls_left cols rows g"
  proof
    assume "grid_get g1 nx ny = Some (Some WALL)"
    from walls_left_marked_less[OF _ _ _ _ this, where cols=cols and rows=rows] 3(3) walls_left_set_le[OF 3(6), where cols=cols and rows=rows]
    show ?thesis by simp
  next
    assume a: "grid_get g1 nx ny = Some (Some PATH)"
    then have "nx = x + dir_dx dir \<and> ny = y + dir_dy dir" using 3 by (auto simp: grid_get_set[OF 3(6)] split: if_splits)
    then have "walls_left cols rows g1 < walls_left cols rows g"
      using walls_left_set_less[OF 3(6), where cols=cols and rows=rows] 3 by simp
    then show ?thesis using walls_left_marked_le[of cols rows g1 nx ny] by simp
  qed
  then show ?case by simp
next
  case (4 cols rows x y dir ds g s nx ny c g1 st)
  from carve_walls_left_partial(1)[OF 4(8) 4(7)] walls_left_set_le[OF 4(6), where cols=cols and rows=rows]
  have "walls_left cols rows (fst st) \<le> walls_left cols rows g" by simp
  then show ?case by (cases st) auto
next
  case 5
  then show ?case by simp
next
  case 6
  then show ?case by simp
qed

definition generateMaze :: "int \<Rightarrow> int \<Rightarrow> int \<Rightarrow> (grid \<times> int) option" where
  \<comment> \<open>\<^verbatim>\<open>_generateMaze\<close>, from \<^verbatim>\<open>this.cols\<close>, \<^verbatim>\<open>this.rows\<close> and the seed of \<^verbatim>\<open>this.rng\<close>\<close>
  "generateMaze cols rows s =
     (let startX = cols div 2;
          startY = 1;
          actualStartX = (if even startX then startX + 1 else startX)
      in carve cols rows actualStartX startY (new_grid cols rows, s))"

subsection \<open>Entry and exits (maze.js, lines 287 to 332)\<close>

text \<open>
  \<open>nearest_path\<close> is the inner loop over \<open>x = 1, ..., cols - 2\<close>: it keeps the best
  column and the least distance found so far, \<open>None\<close> standing for the initial
  \<^verbatim>\<open>Infinity\<close>. The outer argument of type \<open>option\<close> is again the TypeError of reading a row
  that does not exist.
\<close>

fun nearest_path ::
  "grid \<Rightarrow> int \<Rightarrow> int \<Rightarrow> int list \<Rightarrow> int \<times> int option \<Rightarrow> (int \<times> int option) option"
where
  "nearest_path g ry targetCol [] acc = Some acc"
| "nearest_path g ry targetCol (x # xs) (bestCol, minDist) =
     (case grid_get g x ry of
        None \<Rightarrow> None
      | Some c \<Rightarrow>
          if c = Some PATH then
            (let dist = \<bar>x - targetCol\<bar>
             in if (case minDist of None \<Rightarrow> True | Some m \<Rightarrow> dist < m)
                then nearest_path g ry targetCol xs (x, Some dist)
                else nearest_path g ry targetCol xs (bestCol, minDist))
          else nearest_path g ry targetCol xs (bestCol, minDist))"

definition exitPositions :: "real list" where
  "exitPositions = [0.1, 0.3, 0.5, 0.7, 0.9]"

fun create_exits ::
  "int \<Rightarrow> int \<Rightarrow> real list \<Rightarrow> grid \<times> int list \<Rightarrow> (grid \<times> int list) option"
where
  "create_exits cols rows [] (g, exitColumns) = Some (g, exitColumns)"
| "create_exits cols rows (pos # ps) (g, exitColumns) =
     (let targetCol = \<lfloor>pos * of_int cols\<rfloor>
      in case nearest_path g (rows - 2) targetCol [1..cols - 2] (targetCol, None) of
           None \<Rightarrow> None
         | Some (bestCol, minDist) \<Rightarrow>
             (case grid_set g bestCol (rows - 1) EXIT of
                None \<Rightarrow> None
              | Some g1 \<Rightarrow> create_exits cols rows ps (g1, exitColumns @ [bestCol])))"

fun carve_up :: "grid \<Rightarrow> int \<Rightarrow> int list \<Rightarrow> grid option" where
  \<comment> \<open>\<^verbatim>\<open>for (let y = this.rows - 2; y >= 0; y--)\<close>, over the list of these \<open>y\<close>\<close>
  "carve_up g col [] = Some g"
| "carve_up g col (y # ys) =
     (case grid_get g col y of
        None \<Rightarrow> None
      | Some c \<Rightarrow>
          if c = Some PATH then Some g
          else (case grid_set g col y PATH of
                  None \<Rightarrow> None
                | Some g1 \<Rightarrow> carve_up g1 col ys))"

fun connect_exits :: "int \<Rightarrow> int list \<Rightarrow> grid \<Rightarrow> grid option" where
  "connect_exits rows [] g = Some g"
| "connect_exits rows (col # cs) g =
     (case grid_get g col (rows - 2) of
        None \<Rightarrow> None
      | Some c \<Rightarrow>
          if c = Some WALL then
            (case carve_up g col (rev [0..rows - 2]) of
               None \<Rightarrow> None
             | Some g1 \<Rightarrow> connect_exits rows cs g1)
          else connect_exits rows cs g)"

definition createEntryAndExits :: "int \<Rightarrow> int \<Rightarrow> grid \<Rightarrow> (grid \<times> int list) option" where
  "createEntryAndExits cols rows g =
     (let centerX = cols div 2
      in case grid_set g centerX 0 ENTRY of
           None \<Rightarrow> None
         | Some g1 \<Rightarrow>
             (case grid_set g1 centerX 1 PATH of
                None \<Rightarrow> None
              | Some g2 \<Rightarrow>
                  (case create_exits cols rows exitPositions (g2, []) of
                     None \<Rightarrow> None
                   | Some (g3, exitColumns) \<Rightarrow>
                       (case connect_exits rows exitColumns g3 of
                          None \<Rightarrow> None
                        | Some g4 \<Rightarrow> Some (g4, exitColumns)))))"

subsection \<open>Exit zones and wall rectangles (maze.js, lines 338 to 389)\<close>

record exit_zone =
  zone_x :: real
  zone_y :: real
  zone_width :: real
  zone_height :: real
  zone_score :: int
  zone_color :: string
  zone_label :: string
  zone_column :: int

definition exitScores :: "(int \<times> string \<times> string) list" where
  "exitScores =
     [(500, ''#4ade80'', ''500''), (100, ''#60a5fa'', ''100''), (1000, ''#facc15'', ''1000''),
      (0, ''#94a3b8'', ''0''), (250, ''#f472b6'', ''250'')]"

text \<open>
  \<^verbatim>\<open>this.exitColumns[i] || Math.floor((i + 0.5) * this.cols / 5)\<close>: the second operand is
  taken when the first is \<^verbatim>\<open>undefined\<close> (no such element) or \<open>0\<close>.
\<close>

definition zone_column_of :: "int list \<Rightarrow> int \<Rightarrow> nat \<Rightarrow> int" where
  "zone_column_of exitColumns cols i =
     (if i < length exitColumns \<and> exitColumns ! i \<noteq> 0 then exitColumns ! i
      else \<lfloor>(real i + 0.5) * of_int cols / 5\<rfloor>)"

definition buildExitZones :: "int \<Rightarrow> int \<Rightarrow> int \<Rightarrow> int list \<Rightarrow> exit_zone list" where
  \<comment> \<open>from \<^verbatim>\<open>this.width\<close>, \<^verbatim>\<open>this.height\<close>, \<^verbatim>\<open>this.cols\<close> and \<^verbatim>\<open>this.exitColumns\<close>\<close>
  "buildExitZones width height cols exitColumns =
     (let zoneWidth = real_of_int width / 5
      in map (\<lambda>i. let zoneX = real i * zoneWidth;
                       (sc, color, label) = exitScores ! i
                   in \<lparr>zone_x = zoneX, zone_y = of_int height, zone_width = zoneWidth,
                       zone_height = of_int (zoneHeight EXIT_CONFIG), zone_score = sc,
                       zone_color = color, zone_label = label,
                       zone_column = zone_column_of exitColumns cols i\<rparr>)
             [0..<5])"

record wall_rect =
  wall_x :: real
  wall_y :: real
  wall_width :: real
  wall_height :: real
  wall_isWall :: bool

fun wall_row :: "grid \<Rightarrow> int \<Rightarrow> int \<Rightarrow> int list \<Rightarrow> wall_rect list option" where
  \<comment> \<open>the inner loop of \<^verbatim>\<open>_buildWallRects\<close> over the columns of row \<open>y\<close>\<close>
  "wall_row g cellSize y [] = Some []"
| "wall_row g cellSize y (x # xs) =
     (case grid_get g x y of
        None \<Rightarrow> None
      | Some c \<Rightarrow>
          (case wall_row g cellSize y xs of
             None \<Rightarrow> None
           | Some ws \<Rightarrow>
               if c = Some WALL then
                 Some (\<lparr>wall_x = of_int (x * cellSize), wall_y = of_int (y * cellSize),
                        wall_width = of_int cellSize, wall_height = of_int cellSize,
                        wall_isWall = True\<rparr> # ws)
               else Some ws))"

fun wall_rows :: "grid \<Rightarrow> int \<Rightarrow> int \<Rightarrow> int list \<Rightarrow> wall_rect list option" where
  "wall_rows g cellSize cols [] = Some []"
| "wall_rows g cellSize cols (y # ys) =
     (case wall_row g cellSize y [0..cols - 1] of
        None \<Rightarrow> None
      | Some ws \<Rightarrow>
          (case wall_rows g cellSize cols ys of
             None \<Rightarrow> None
           | Some ws' \<Rightarrow> Some (ws @ ws')))"

definition buildWallRects :: "grid \<Rightarrow> int \<Rightarrow> int \<Rightarrow> int \<Rightarrow> wall_rect list option" where
  "buildWallRects g cellSize cols rows = wall_rows g cellSize cols [0..rows - 1]"

subsection \<open>MazeGenerator and its init (maze.js, lines 91 to 223)\<close>

text \<open>
  The fields of the generator object. \<^verbatim>\<open>this.marginLeft\<close> and \<^verbatim>\<open>this.marginTop\<close> do not
  exist before the first \<^verbatim>\<open>init\<close> (\<open>None\<close>). \<^verbatim>\<open>init\<close> seeds the generator with
  \<^verbatim>\<open>Date.now()\<close>; the model takes that number as its first argument \<open>now\<close>. When a
  TypeError is thrown the result is \<open>None\<close>: the partly updated object is not modelled.
\<close>

record maze_generator =
  mz_grid :: grid
  mz_cols :: int
  mz_rows :: int
  mz_cellSize :: int
  mz_wallThickness :: int
  mz_level :: int
  mz_rng :: int
  mz_exitZones :: "exit_zone list"
  mz_wallRects :: "wall_rect list"
  mz_entryX :: real
  mz_entryY :: real
  mz_width :: int
  mz_height :: int
  mz_exitColumns :: "int list"
  mz_marginLeft :: "int option"
  mz_marginTop :: "int option"

definition new_MazeGenerator :: "int \<Rightarrow> maze_generator" where
  \<comment> \<open>the constructor; its \<^verbatim>\<open>new SeededRandom()\<close> reads the clock too\<close>
  "new_MazeGenerator now =
     \<lparr>mz_grid = (\<lambda>y. None), mz_cols = 15, mz_rows = 15, mz_cellSize = 30,
      mz_wallThickness = 4, mz_level = 1, mz_rng = now, mz_exitZones = [], mz_wallRects = [],
      mz_entryX = 0, mz_entryY = 0, mz_width = 0, mz_height = 0, mz_exitColumns = [],
      mz_marginLeft = None, mz_marginTop = None\<rparr>"

definition maze_init ::
  "int \<Rightarrow> int \<Rightarrow> real \<Rightarrow> real \<Rightarrow> maze_generator \<Rightarrow> maze_generator option"
where
  "maze_init now level canvasWidth canvasHeight this =
     (let l = init_layout level canvasWidth canvasHeight;
          cols = lay_cols l;
          rows = lay_rows l;
          cellSize = lay_cellSize l;
          width = cols * cellSize;
          height = rows * cellSize
      in case generateMaze cols rows now of
           None \<Rightarrow> None
         | Some (g, s) \<Rightarrow>
             (case createEntryAndExits cols rows g of
                None \<Rightarrow> None
              | Some (g', exitColumns) \<Rightarrow>
                  (case buildWallRects g' cellSize cols rows of
                     None \<Rightarrow> None
                   | Some wallRects \<Rightarrow>
                       Some (this\<lparr>mz_level := level, mz_cols := cols, mz_rows := rows,
                                   mz_cellSize := cellSize, mz_width := width,
                                   mz_height := height,
                                   mz_marginLeft := Some (lay_marginLeft l),
                                   mz_marginTop := Some (lay_marginTop l),
                                   mz_rng := s, mz_grid := g', mz_exitColumns := exitColumns,
                                   mz_exitZones := buildExitZones width height cols exitColumns,
                                   mz_wallRects := wallRects,
                                   mz_entryX := real_of_int width / 2,
                                   mz_entryY := real_of_int cellSize * 1.5\<rparr>))))"

section \<open>Physics (physics.js)\<close>

subsection \<open>Ball (physics.js, lines 22 to 105)\<close>

record ball =
  ball_x :: real
  ball_y :: real
  ball_vx :: real
  ball_vy :: real
  ball_radius :: real
  ball_index :: nat
  ball_active :: bool
  ball_exited :: bool
  ball_score :: int
  ball_trail :: "(real \<times> real) list"

text \<open>
  \<^verbatim>\<open>radius || PHYSICS_CONFIG.ballRadius\<close>: the default is taken when the argument is
  \<^verbatim>\<open>null\<close> (\<open>None\<close>, also the default of the parameter) or \<open>0\<close>.
\<close>

definition radius_or_default :: "real option \<Rightarrow> real" where
  "radius_or_default r =
     (case r of None \<Rightarrow> ballRadius PHYSICS_CONFIG
      | Some v \<Rightarrow> if v = 0 then ballRadius PHYSICS_CONFIG else v)"

definition new_Ball :: "real \<Rightarrow> real \<Rightarrow> nat \<Rightarrow> real option \<Rightarrow> ball" where
  "new_Ball x y index radius =
     \<lparr>ball_x = x, ball_y = y, ball_vx = 0, ball_vy = 0, ball_radius = radius_or_default radius,
      ball_index = index, ball_active = True, ball_exited = False, ball_score = 0,
      ball_trail = []\<rparr>"

definition getSpeed :: "ball \<Rightarrow> real" where
  "getSpeed b = sqrt (ball_vx b * ball_vx b + ball_vy b * ball_vy b)"

definition updateTrail :: "ball \<Rightarrow> ball" where
  \<comment> \<open>\<^verbatim>\<open>unshift\<close>, then \<^verbatim>\<open>pop\<close> while the trail is longer than \<^verbatim>\<open>trailLength\<close>\<close>
  "updateTrail b =
     b\<lparr>ball_trail := take (trailLength VISUAL_CONFIG) ((ball_x b, ball_y b) # ball_trail b)\<rparr>"

subsection \<open>PhysicsEngine (physics.js, lines 111 to 442)\<close>

text \<open>
  The fields of the engine. \<^verbatim>\<open>this.ballRadius\<close> does not exist before the first
  \<^verbatim>\<open>init\<close> (\<open>None\<close>). The two callbacks are code of the caller and do not change the
  engine; the model only records whether one is registered.
\<close>

record engine =
  eng_balls :: "ball list"
  eng_gravity_x :: real
  eng_gravity_y :: real
  eng_paused :: bool
  eng_score :: int
  eng_walls :: "wall_rect list"
  eng_exitZones :: "exit_zone list"
  eng_mazeWidth :: real
  eng_mazeHeight :: real
  eng_ballRadius :: "real option"
  eng_onBallExit :: bool
  eng_onWallHit :: bool

definition new_PhysicsEngine :: engine where
  "new_PhysicsEngine =
     \<lparr>eng_balls = [], eng_gravity_x = 0, eng_gravity_y = 0, eng_paused = False, eng_score = 0,
      eng_walls = [], eng_exitZones = [], eng_mazeWidth = 0, eng_mazeHeight = 0,
      eng_ballRadius = None, eng_onBallExit = False, eng_onWallHit = False\<rparr>"

definition physics_init ::
  "(real \<times> real) list \<Rightarrow> wall_rect list \<Rightarrow> exit_zone list \<Rightarrow> real \<Rightarrow> real \<Rightarrow> real option
     \<Rightarrow> engine \<Rightarrow> engine"
where
  \<comment> \<open>\<^verbatim>\<open>init\<close>; a spawn position is the pair of its \<^verbatim>\<open>x\<close> and \<^verbatim>\<open>y\<close>\<close>
  "physics_init spawnPositions walls exitZones mazeWidth mazeHeight radius this =
     (let r = radius_or_default radius
      in this\<lparr>eng_balls :=
                  map (\<lambda>(index, pos). new_Ball (fst pos) (snd pos) index (Some r))
                      (enumerate 0 spawnPositions),
               eng_score := 0, eng_walls := walls, eng_exitZones := exitZones,
               eng_mazeWidth := mazeWidth, eng_mazeHeight := mazeHeight,
               eng_ballRadius := Some r\<rparr>)"

definition setGravity :: "real \<Rightarrow> real \<Rightarrow> engine \<Rightarrow> engine" where
  "setGravity gx gy this = this\<lparr>eng_gravity_x := gx, eng_gravity_y := gy\<rparr>"

definition setPaused :: "bool \<Rightarrow> engine \<Rightarrow> engine" where
  "setPaused paused this = this\<lparr>eng_paused := paused\<rparr>"

definition getScore :: "engine \<Rightarrow> int" where
  "getScore this = eng_score this"

definition engine_reset :: "engine \<Rightarrow> engine" where
  \<comment> \<open>\<^verbatim>\<open>reset\<close>\<close>
  "engine_reset this =
     this\<lparr>eng_balls := [], eng_score := 0, eng_paused := False, eng_walls := [],
          eng_exitZones := []\<rparr>"

subsection \<open>One frame (physics.js, lines 183 to 351)\<close>

text \<open>
  The body of the loop of \<^verbatim>\<open>update\<close> is split at its comments: \<open>accelerate\<close> (base
  gravity, controls, friction), \<open>clampVelocity\<close>, \<open>applyThreshold\<close> and \<open>integrate\<close>
  (the new position).
\<close>

definition accelerate :: "engine \<Rightarrow> ball \<Rightarrow> ball" where
  "accelerate this b =
     (let baseGravityY = 0.12;
          vy1 = ball_vy b + baseGravityY;
          vx2 = ball_vx b + eng_gravity_x this * gravityMultiplier PHYSICS_CONFIG;
          vy2 = vy1 + eng_gravity_y this * gravityMultiplier PHYSICS_CONFIG
      in b\<lparr>ball_vx := vx2 * friction PHYSICS_CONFIG, ball_vy := vy2 * friction PHYSICS_CONFIG\<rparr>)"

definition clampVelocity :: "ball \<Rightarrow> ball" where
  "clampVelocity b =
     (let speed = getSpeed b
      in if speed > maxVelocity PHYSICS_CONFIG then
           (let scale = maxVelocity PHYSICS_CONFIG / speed
            in b\<lparr>ball_vx := ball_vx b * scale, ball_vy := ball_vy b * scale\<rparr>)
         else b)"

definition applyThreshold :: "ball \<Rightarrow> ball" where
  "applyThreshold b =
     (let b1 = (if \<bar>ball_vx b\<bar> < velocityThreshold PHYSICS_CONFIG then b\<lparr>ball_vx := 0\<rparr> else b)
      in if \<bar>ball_vy b1\<bar> < velocityThreshold PHYSICS_CONFIG then b1\<lparr>ball_vy := 0\<rparr> else b1)"

definition integrate :: "ball \<Rightarrow> ball" where
  "integrate b = b\<lparr>ball_x := ball_x b + ball_vx b, ball_y := ball_y b + ball_vy b\<rparr>"

text \<open>
  \<open>resolve_wall\<close> is the body of the loop of \<^verbatim>\<open>_handleWallCollisions\<close> for one wall. The
  wall-hit callback is left out: it does not change the ball or the engine.
\<close>

definition resolve_wall :: "real \<Rightarrow> real \<Rightarrow> ball \<Rightarrow> wall_rect \<Rightarrow> ball" where
  "resolve_wall prevX prevY b w =
     (let closestX = max (wall_x w) (min (ball_x b) (wall_x w + wall_width w));
          closestY = max (wall_y w) (min (ball_y b) (wall_y w + wall_height w));
          distX = ball_x b - closestX;
          distY = ball_y b - closestY;
          distance = sqrt (distX * distX + distY * distY)
      in if distance < ball_radius b then
           (let overlap = ball_radius b - distance
            in if distance > 0 then
                 (let nx = distX / distance;
                      ny = distY / distance;
                      dot = ball_vx b * nx + ball_vy b * ny
                  in b\<lparr>ball_x := ball_x b + nx * overlap,
                        ball_y := ball_y b + ny * overlap,
                        ball_vx := ball_vx b - 2 * dot * nx * (1 - bounceFactor PHYSICS_CONFIG),
                        ball_vy := ball_vy b - 2 * dot * ny * (1 - bounceFactor PHYSICS_CONFIG)\<rparr>)
               else
                 b\<lparr>ball_x := prevX, ball_y := prevY,
                    ball_vx := ball_vx b * - bounceFactor PHYSICS_CONFIG,
                    ball_vy := ball_vy b * - bounceFactor PHYSICS_CONFIG\<rparr>)
         else b)"

definition handleWallCollisions :: "engine \<Rightarrow> ball \<Rightarrow> real \<Rightarrow> real \<Rightarrow> ball" where
  "handleWallCollisions this b prevX prevY = foldl (resolve_wall prevX prevY) b (eng_walls this)"

definition handleBoundaries :: "engine \<Rightarrow> ball \<Rightarrow> ball" where
  "handleBoundaries this b =
     (let b1 = (if ball_x b - ball_radius b < 0
                then b\<lparr>ball_x := ball_radius b,
                       ball_vx := \<bar>ball_vx b\<bar> * bounceFactor PHYSICS_CONFIG\<rparr>
                else b);
          b2 = (if ball_x b1 + ball_radius b1 > eng_mazeWidth this
                then b1\<lparr>ball_x := eng_mazeWidth this - ball_radius b1,
                        ball_vx := - \<bar>ball_vx b1\<bar> * bounceFactor PHYSICS_CONFIG\<rparr>
                else b1)
      in if ball_y b2 - ball_radius b2 < 0
         then b2\<lparr>ball_y := ball_radius b2,
                 ball_vy := \<bar>ball_vy b2\<bar> * bounceFactor PHYSICS_CONFIG\<rparr>
         else b2)"

fun find_zone :: "exit_zone list \<Rightarrow> real \<Rightarrow> exit_zone option" where
  \<comment> \<open>the loop with \<^verbatim>\<open>break\<close> of \<^verbatim>\<open>_checkExitZones\<close>; \<open>None\<close> is \<^verbatim>\<open>exitZone = null\<close>\<close>
  "find_zone [] x = None"
| "find_zone (zone # zs) x =
     (if x \<ge> zone_x zone \<and> x \<le> zone_x zone + zone_width zone then Some zone
      else find_zone zs x)"

text \<open>
  \<^verbatim>\<open>_checkExitZones\<close> changes the ball and \<^verbatim>\<open>this.score\<close>. The timer it starts is the
  transition \<open>exit_timeout\<close> below.
\<close>

definition checkExitZones :: "ball \<Rightarrow> engine \<Rightarrow> ball \<times> engine" where
  "checkExitZones b this =
     (if ball_exited b then (b, this)
      else if ball_y b > eng_mazeHeight this then
        (let b1 = b\<lparr>ball_exited := True\<rparr>
         in case find_zone (eng_exitZones this) (ball_x b1) of
              Some exitZone \<Rightarrow>
                (b1\<lparr>ball_score := zone_score exitZone\<rparr>,
                 this\<lparr>eng_score := eng_score this + zone_score exitZone\<rparr>)
            | None \<Rightarrow>
                (b1\<lparr>ball_score := 50\<rparr>, this\<lparr>eng_score := eng_score this + 50\<rparr>))
      else (b, this))"

definition before_exit_check :: "engine \<Rightarrow> ball \<Rightarrow> ball" where
  \<comment> \<open>the ball of one iteration of \<^verbatim>\<open>update\<close> when \<^verbatim>\<open>_checkExitZones\<close> is called\<close>
  "before_exit_check this b =
     handleBoundaries this
       (handleWallCollisions this
          (integrate (applyThreshold (clampVelocity (accelerate this b)))) (ball_x b) (ball_y b))"

definition update_ball :: "ball \<Rightarrow> engine \<Rightarrow> ball \<times> engine" where
  \<comment> \<open>one iteration of the loop of \<^verbatim>\<open>update\<close>, for an active ball\<close>
  "update_ball b this =
     (case checkExitZones (before_exit_check this b) this of
        (b', this') \<Rightarrow> (updateTrail b', this'))"

fun update_balls :: "ball list \<Rightarrow> engine \<Rightarrow> ball list \<times> engine" where
  "update_balls [] this = ([], this)"
| "update_balls (b # bs) this =
     (if \<not> ball_active b then
        (case update_balls bs this of (bs', this') \<Rightarrow> (b # bs', this'))
      else
        (case update_ball b this of
           (b', this1) \<Rightarrow>
             (case update_balls bs this1 of (bs', this') \<Rightarrow> (b' # bs', this'))))"

definition update :: "engine \<Rightarrow> engine" where
  "update this =
     (if eng_paused this then this
      else case update_balls (eng_balls this) this of
             (bs, this') \<Rightarrow> this'\<lparr>eng_balls := bs\<rparr>)"

text \<open>
  The timer started by \<^verbatim>\<open>_checkExitZones\<close> fires some time after the ball has exited and
  sets \<^verbatim>\<open>ball.active = false\<close>. For the ball at position \<open>i\<close> of the current list a
  timer is pending exactly while the ball is exited and still active.
\<close>

definition exit_timeout :: "nat \<Rightarrow> engine \<Rightarrow> engine" where
  "exit_timeout i this =
     (if i < length (eng_balls this) \<and> ball_exited (eng_balls this ! i)
          \<and> ball_active (eng_balls this ! i)
      then this\<lparr>eng_balls := (eng_balls this)[i := (eng_balls this ! i)\<lparr>ball_active := False\<rparr>]\<rparr>
      else this)"

text \<open>The calls a caller can make on an initialised engine, and runs of them.\<close>

datatype engine_call = Update | SetGravity real real | SetPaused bool | Timeout nat

fun do_call :: "engine_call \<Rightarrow> engine \<Rightarrow> engine" where
  "do_call Update this = update this"
| "do_call (SetGravity gx gy) this = setGravity gx gy this"
| "do_call (SetPaused p) this = setPaused p this"
| "do_call (Timeout i) this = exit_timeout i this"

definition run_calls :: "engine_call list \<Rightarrow> engine \<Rightarrow> engine" where
  "run_calls cs this = foldl (\<lambda>e c. do_call c e) this cs"

section \<open>Properties of the maze generator\<close>

subsection \<open>The size of the maze\<close>

lemma floor_fit:
  assumes c: "0 < (c::int)" and k: "k \<le> \<lfloor>a / of_int c\<rfloor>"
  shows "real_of_int (c * k) \<le> a"
proof -
  have "of_int k \<le> a / of_int c" using k by (simp add: le_floor_iff)
  then have "of_int k * of_int c \<le> a"
    using c by (simp add: pos_le_divide_eq)
  then show ?thesis by (simp add: mult.commute)
qed

lemma target_cols_range:
  assumes "1 \<le> (level::int)"
  defines "t \<equiv> min 21 (11 + (level div 3) * 2)"
  shows "odd t \<and> 11 \<le> t"
proof -
  have "0 \<le> level div 3" using assms(1) by (simp add: pos_imp_zdiv_nonneg_iff)
  then show ?thesis by (auto simp: t_def min_def)
qed

lemma target_rows_range:
  assumes "1 \<le> (level::int)"
  defines "t \<equiv> min 25 (13 + (level div 4) * 2)"
  shows "odd t \<and> 13 \<le> t"
proof -
  have "0 \<le> level div 4" using assms(1) by (simp add: pos_imp_zdiv_nonneg_iff)
  then show ?thesis by (auto simp: t_def min_def)
qed

lemma shrink_odd:
  fixes n :: int
  defines "m \<equiv> max 9 (if even n then n - 1 else n)"
  shows "odd m \<and> 9 \<le> m \<and> (9 \<le> n \<longrightarrow> m \<le> n)"
  by (auto simp: m_def max_def)

text \<open>
  Claim C8: the maze never exceeds the available area. The code says the same of its
  fallback branch (``Reduce cols/rows to fit within available space'', ``MUST fit within
  available space''), but the floor \<^verbatim>\<open>Math.max(9, ...)\<close> of that branch breaks it: on a small
  canvas 9 rows of the minimum cell size of 16 pixels are higher than the available area.
  At level 1 on a 320 by 240 canvas the available height is 75 pixels and the maze is 144
  pixels high.
\<close>

theorem layout_exceeds_small_canvas:
  "lay_rows (init_layout 1 320 240) = 9 \<and> lay_cellSize (init_layout 1 320 240) = 16 \<and>
   lay_availableHeight (init_layout 1 320 240) = 75 \<and>
   real_of_int (lay_rows (init_layout 1 320 240) * lay_cellSize (init_layout 1 320 240))
     > lay_availableHeight (init_layout 1 320 240)"
  by (simp add: init_layout_def EXIT_CONFIG_def Let_def)

text \<open>
  The same on a phone in landscape, 568 by 300: the available height is 135 pixels, the
  maze is again 9 rows of 16 pixels.
\<close>

lemma layout_exceeds_phone_landscape:
  "lay_rows (init_layout 1 568 300) = 9 \<and> lay_cellSize (init_layout 1 568 300) = 16 \<and>
   lay_availableHeight (init_layout 1 568 300) = 135 \<and>
   real_of_int (lay_rows (init_layout 1 568 300) * lay_cellSize (init_layout 1 568 300))
     > lay_availableHeight (init_layout 1 568 300)"
  by (simp add: init_layout_def EXIT_CONFIG_def Let_def)

text \<open>
  The extent of the defect: the cell size is always at least 16 pixels and the numbers of
  columns and rows are odd and at least 9; the maze exceeds the available area in a
  dimension only where that area is less than 144 pixels (9 cells of 16 pixels).
\<close>

lemma layout_cells_and_fit:
  assumes "1 \<le> level"
  shows "16 \<le> lay_cellSize (init_layout level cw ch) \<and>
     odd (lay_cols (init_layout level cw ch)) \<and> odd (lay_rows (init_layout level cw ch)) \<and>
     9 \<le> lay_cols (init_layout level cw ch) \<and> 9 \<le> lay_rows (init_layout level cw ch) \<and>
     (144 \<le> lay_availableWidth (init_layout level cw ch) \<longrightarrow>
        real_of_int (lay_cols (init_layout level cw ch) * lay_cellSize (init_layout level cw ch))
          \<le> lay_availableWidth (init_layout level cw ch)) \<and>
     (144 \<le> lay_availableHeight (init_layout level cw ch) \<longrightarrow>
        real_of_int (lay_rows (init_layout level cw ch) * lay_cellSize (init_layout level cw ch))
          \<le> lay_availableHeight (init_layout level cw ch))"
proof -
  define aw where "aw = (if cw > ch then cw - 120 - 20 else cw - 20 - 20)"
  define ah where "ah = (if cw > ch then ch - 20 - 100 - 45 else ch - 100 - 100 - 45)"
  define tc where "tc = min 21 (11 + (level div 3) * 2)"
  define tr where "tr = min 25 (13 + (level div 4) * 2)"
  define cs where "cs = \<lfloor>min (aw / of_int tc) (ah / of_int tr)\<rfloor>"
  define c2 where "c2 = max 9 (if even \<lfloor>aw / 16\<rfloor> then \<lfloor>aw / 16\<rfloor> - 1 else \<lfloor>aw / 16\<rfloor>)"
  define r2 where "r2 = max 9 (if even \<lfloor>ah / 16\<rfloor> then \<lfloor>ah / 16\<rfloor> - 1 else \<lfloor>ah / 16\<rfloor>)"
  have tc: "odd tc" "11 \<le> tc" using target_cols_range[OF assms] by (simp_all add: tc_def)
  have tr: "odd tr" "13 \<le> tr" using target_rows_range[OF assms] by (simp_all add: tr_def)
  have unfold: "init_layout level cw ch =
     (if cs < 16 then
        \<lparr>lay_cols = c2, lay_rows = r2, lay_cellSize = 16,
         lay_marginLeft = (if cw > ch then 120 else 20),
         lay_marginTop = (if cw > ch then 20 else 100),
         lay_availableWidth = aw, lay_availableHeight = ah\<rparr>
      else
        \<lparr>lay_cols = tc, lay_rows = tr, lay_cellSize = cs,
         lay_marginLeft = (if cw > ch then 120 else 20),
         lay_marginTop = (if cw > ch then 20 else 100),
         lay_availableWidth = aw, lay_availableHeight = ah\<rparr>)"
  proof -
    have e1: "(if even tc then tc + 1 else tc) = tc" using tc(1) by simp
    have e2: "(if even tr then tr + 1 else tr) = tr" using tr(1) by simp
    show ?thesis
      unfolding init_layout_def Let_def EXIT_CONFIG_def
      apply (simp only: exit_config.simps split_conv prod.case
                  tc_def[symmetric] tr_def[symmetric] e1 e2 cong: if_cong)
      apply (cases "cw > ch")
       apply (simp_all only: if_True if_False aw_def ah_def cs_def c2_def r2_def split_conv
                  prod.case of_int_numeral refl)
      done
  qed
  show ?thesis
  proof (cases "cs < 16")
    case True
    have c2: "odd c2 \<and> 9 \<le> c2 \<and> (9 \<le> \<lfloor>aw / 16\<rfloor> \<longrightarrow> c2 \<le> \<lfloor>aw / 16\<rfloor>)"
      unfolding c2_def by (rule shrink_odd)
    have r2: "odd r2 \<and> 9 \<le> r2 \<and> (9 \<le> \<lfloor>ah / 16\<rfloor> \<longrightarrow> r2 \<le> \<lfloor>ah / 16\<rfloor>)"
      unfolding r2_def by (rule shrink_odd)
    have w: "real_of_int (c2 * 16) \<le> aw" if "144 \<le> aw"
    proof -
      have "9 \<le> \<lfloor>aw / 16\<rfloor>" using that by (simp add: le_floor_iff)
      then have "c2 \<le> \<lfloor>aw / real_of_int 16\<rfloor>" using c2 by simp
      from floor_fit[OF _ this] show ?thesis by (simp add: mult.commute)
    qed
    have h: "real_of_int (r2 * 16) \<le> ah" if "144 \<le> ah"
    proof -
      have "9 \<le> \<lfloor>ah / 16\<rfloor>" using that by (simp add: le_floor_iff)
      then have "r2 \<le> \<lfloor>ah / real_of_int 16\<rfloor>" using r2 by simp
      from floor_fit[OF _ this] show ?thesis by (simp add: mult.commute)
    qed
    show ?thesis using True c2 r2 w h by (simp add: unfold)
  next
    case False
    have "cs \<le> \<lfloor>aw / of_int tc\<rfloor>" unfolding cs_def by (rule floor_mono) simp
    then have w: "real_of_int (tc * cs) \<le> aw" using tc(2) by (intro floor_fit) auto
    have "cs \<le> \<lfloor>ah / of_int tr\<rfloor>" unfolding cs_def by (rule floor_mono) simp
    then have h: "real_of_int (tr * cs) \<le> ah" using tr(2) by (intro floor_fit) auto
    show ?thesis using False tc tr w h by (simp add: unfold)
  qed
qed

subsection \<open>Determinism\<close>

text \<open>
  Claim C9: with the seed as an explicit input, what \<^verbatim>\<open>init\<close> produces is determined by
  the seed, the level and the canvas size. Run on two generator objects in any two states,
  \<^verbatim>\<open>init\<close> throws on both or returns on both, and then the two objects agree on the grid,
  the exit columns, the exit zones, the wall rectangles and every other field that \<^verbatim>\<open>init\<close>
  assigns; the one field it does not assign, the wall thickness, stays that of the object.
\<close>

theorem maze_init_deterministic:
  "maze_init seed level canvasWidth canvasHeight this1 =
     map_option (\<lambda>m. m\<lparr>mz_wallThickness := mz_wallThickness this1\<rparr>)
       (maze_init seed level canvasWidth canvasHeight this2)"
  unfolding maze_init_def Let_def
  by (simp split: option.splits prod.splits)

section \<open>Properties of the physics engine\<close>

subsection \<open>PhysicsEngine.init\<close>

lemma enumerate_map_upt: "map f (enumerate 0 xs) = map (\<lambda>i. f (i, xs ! i)) [0..<length xs]"
  by (rule nth_equalityI) (simp_all add: nth_enumerate_eq)

text \<open>
  Claim C7: \<^verbatim>\<open>init\<close> resets all the state of the engine, pause flag and gravity included.
  The code of \<^verbatim>\<open>init\<close> assigns neither of the two, while its sibling \<^verbatim>\<open>reset\<close> does clear
  the pause flag: an engine that was paused and given the gravity \<open>(1, 1)\<close> is still paused
  and still has that gravity after \<^verbatim>\<open>init\<close>, and so differs from a fresh engine initialised
  with the same arguments.
\<close>

theorem physics_init_keeps_pause_and_gravity:
  "eng_paused (physics_init [(0, 0)] [] [] 100 100 (Some 5)
      (setPaused True (setGravity 1 1 new_PhysicsEngine))) \<and>
   eng_gravity_x (physics_init [(0, 0)] [] [] 100 100 (Some 5)
      (setPaused True (setGravity 1 1 new_PhysicsEngine))) = 1 \<and>
   eng_gravity_y (physics_init [(0, 0)] [] [] 100 100 (Some 5)
      (setPaused True (setGravity 1 1 new_PhysicsEngine))) = 1 \<and>
   physics_init [(0, 0)] [] [] 100 100 (Some 5) (setPaused True (setGravity 1 1 new_PhysicsEngine))
     \<noteq> physics_init [(0, 0)] [] [] 100 100 (Some 5) new_PhysicsEngine"
  by (simp add: physics_init_def setPaused_def setGravity_def new_PhysicsEngine_def Let_def)

text \<open>
  What \<^verbatim>\<open>init\<close> does assign: one new ball per spawn position, the score, and the geometry
  it was given. Everything else is as it was.
\<close>

lemma radius_or_default_idem:
  "radius_or_default (Some (radius_or_default r)) = radius_or_default r"
  by (cases r) (simp_all add: radius_or_default_def PHYSICS_CONFIG_def)

lemma physics_init_eq:
  "physics_init spawnPositions walls exitZones mazeWidth mazeHeight radius this =
     this\<lparr>eng_balls :=
             map (\<lambda>i. \<lparr>ball_x = fst (spawnPositions ! i), ball_y = snd (spawnPositions ! i),
                       ball_vx = 0, ball_vy = 0, ball_radius = radius_or_default radius,
                       ball_index = i, ball_active = True, ball_exited = False,
                       ball_score = 0, ball_trail = []\<rparr>)
                 [0..<length spawnPositions],
          eng_score := 0, eng_walls := walls, eng_exitZones := exitZones,
          eng_mazeWidth := mazeWidth, eng_mazeHeight := mazeHeight,
          eng_ballRadius := Some (radius_or_default radius)\<rparr>"
  by (simp add: physics_init_def Let_def new_Ball_def enumerate_map_upt split_def
      radius_or_default_idem)

text \<open>
  The consequence in the game: a level restarted from the pause menu is initialised on a
  paused engine, and \<^verbatim>\<open>update\<close> returns at once, so the new level does not move.
\<close>

lemma update_after_init_paused:
  "update (physics_init spawnPositions walls exitZones mazeWidth mazeHeight radius
             (setPaused True this)) =
   physics_init spawnPositions walls exitZones mazeWidth mazeHeight radius (setPaused True this)"
  by (simp add: update_def physics_init_eq setPaused_def)

lemma engine_reset_clears_pause: "\<not> eng_paused (engine_reset this)"
  by (simp add: engine_reset_def)

subsection \<open>Score conservation\<close>

text \<open>
  No step before the exit check touches the flags, the score, the radius or the index of a
  ball.
\<close>

definition tags_eq :: "ball \<Rightarrow> ball \<Rightarrow> bool" where
  "tags_eq b' b \<longleftrightarrow> ball_exited b' = ball_exited b \<and> ball_score b' = ball_score b \<and>
     ball_active b' = ball_active b \<and> ball_radius b' = ball_radius b \<and> ball_index b' = ball_index b"

lemma tags_eq_refl: "tags_eq b b"
  by (simp add: tags_eq_def)

lemma tags_eq_moved:
  "tags_eq (b\<lparr>ball_x := x', ball_y := y', ball_vx := vx', ball_vy := vy'\<rparr>) b"
  by (simp add: tags_eq_def)

lemma tags_eq_if: "tags_eq u b \<Longrightarrow> tags_eq v b \<Longrightarrow> tags_eq (if c then u else v) b"
  by simp

lemma tags_eq_Let: "(\<And>v. tags_eq (f v) b) \<Longrightarrow> tags_eq (Let a f) b"
  by simp

lemma resolve_wall_tags: "tags_eq (resolve_wall px py b w) b"
  unfolding resolve_wall_def
  by (intro tags_eq_Let tags_eq_if tags_eq_moved tags_eq_refl)

lemma handleWallCollisions_tags: "tags_eq (handleWallCollisions this b px py) b"
proof -
  have "tags_eq (foldl (resolve_wall px py) b ws) b" for ws
  proof (induction ws arbitrary: b)
    case Nil
    show ?case by (simp add: tags_eq_def)
  next
    case (Cons w ws)
    from Cons[of "resolve_wall px py b w"] resolve_wall_tags[of px py b w]
    show ?case by (simp add: tags_eq_def)
  qed
  then show ?thesis by (simp add: handleWallCollisions_def)
qed

lemma tags_eq_trans: "tags_eq c b \<Longrightarrow> tags_eq b a \<Longrightarrow> tags_eq c a"
  by (simp add: tags_eq_def)

lemma accelerate_tags: "tags_eq (accelerate this b) b"
  by (simp add: accelerate_def tags_eq_def Let_def)

lemma clampVelocity_tags: "tags_eq (clampVelocity b) b"
  by (simp add: clampVelocity_def tags_eq_def Let_def)

lemma applyThreshold_tags: "tags_eq (applyThreshold b) b"
  by (simp add: applyThreshold_def tags_eq_def Let_def)

lemma integrate_tags: "tags_eq (integrate b) b"
  by (simp add: integrate_def tags_eq_def)

lemma handleBoundaries_tags: "tags_eq (handleBoundaries this b) b"
  by (simp add: handleBoundaries_def tags_eq_def Let_def)

lemma before_exit_check_tags: "tags_eq (before_exit_check this b) b"
  unfolding before_exit_check_def
  by (intro tags_eq_trans[OF handleBoundaries_tags] tags_eq_trans[OF handleWallCollisions_tags]
      tags_eq_trans[OF integrate_tags] tags_eq_trans[OF applyThreshold_tags]
      tags_eq_trans[OF clampVelocity_tags] accelerate_tags)

lemma accelerate_score_indep: "accelerate (this\<lparr>eng_score := s\<rparr>) b = accelerate this b"
  by (simp add: accelerate_def)

lemma handleWallCollisions_score_indep:
  "handleWallCollisions (this\<lparr>eng_score := s\<rparr>) b px py = handleWallCollisions this b px py"
  by (simp add: handleWallCollisions_def)

lemma handleBoundaries_score_indep: "handleBoundaries (this\<lparr>eng_score := s\<rparr>) b = handleBoundaries this b"
  by (simp add: handleBoundaries_def Let_def)

lemma before_exit_check_score_indep [simp]:
  "before_exit_check (this\<lparr>eng_score := s\<rparr>) b = before_exit_check this b"
  unfolding before_exit_check_def
  by (simp only: accelerate_score_indep handleWallCollisions_score_indep handleBoundaries_score_indep)

text \<open>
  \<open>award\<close> is the score \<^verbatim>\<open>_checkExitZones\<close> assigns, \<open>exits_now\<close> the condition under which
  an iteration of \<^verbatim>\<open>update\<close> marks the ball exited, \<open>ball_after\<close> and \<open>gain\<close> the ball and
  the increase of \<^verbatim>\<open>this.score\<close> after that iteration.
\<close>

definition exited_score :: "ball \<Rightarrow> int" where
  "exited_score b = (if ball_exited b then ball_score b else 0)"

definition award :: "exit_zone list \<Rightarrow> real \<Rightarrow> int" where
  "award zs x = (case find_zone zs x of Some z \<Rightarrow> zone_score z | None \<Rightarrow> 50)"

definition exits_now :: "engine \<Rightarrow> ball \<Rightarrow> bool" where
  "exits_now this b \<longleftrightarrow> ball_active b \<and> \<not> ball_exited b \<and> ball_y (before_exit_check this b) > eng_mazeHeight this"

lemma checkExitZones_eq:
  "checkExitZones b this =
     (if \<not> ball_exited b \<and> ball_y b > eng_mazeHeight this
      then (b\<lparr>ball_exited := True, ball_score := award (eng_exitZones this) (ball_x b)\<rparr>,
            this\<lparr>eng_score := eng_score this + award (eng_exitZones this) (ball_x b)\<rparr>)
      else (b, this))"
  by (simp add: checkExitZones_def award_def Let_def split: option.splits)

definition ball_after :: "engine \<Rightarrow> ball \<Rightarrow> ball" where
  "ball_after this b =
     (if \<not> ball_active b then b
      else let m = before_exit_check this b
           in updateTrail (if exits_now this b
                then m\<lparr>ball_exited := True, ball_score := award (eng_exitZones this) (ball_x m)\<rparr>
                else m))"

definition gain :: "engine \<Rightarrow> ball \<Rightarrow> int" where
  "gain this b = (if exits_now this b then award (eng_exitZones this) (ball_x (before_exit_check this b)) else 0)"

lemma update_ball_eq:
  "ball_active b \<Longrightarrow> update_ball b this = (ball_after this b, this\<lparr>eng_score := eng_score this + gain this b\<rparr>)"
  using before_exit_check_tags[of this b]
  by (simp add: update_ball_def checkExitZones_eq ball_after_def gain_def exits_now_def tags_eq_def Let_def)

lemma exits_now_score_indep [simp]: "exits_now (this\<lparr>eng_score := s\<rparr>) b = exits_now this b"
  by (simp add: exits_now_def)

lemma ball_after_score_indep [simp]: "ball_after (this\<lparr>eng_score := s\<rparr>) b = ball_after this b"
  by (simp add: ball_after_def Let_def)

lemma gain_score_indep [simp]: "gain (this\<lparr>eng_score := s\<rparr>) b = gain this b"
  by (simp add: gain_def)

lemma update_balls_eq:
  "update_balls bs this =
     (map (ball_after this) bs, this\<lparr>eng_score := eng_score this + sum_list (map (gain this) bs)\<rparr>)"
proof (induction bs arbitrary: this)
  case Nil
  show ?case by simp
next
  case (Cons b bs)
  show ?case
  proof (cases "ball_active b")
    case False
    then have "gain this b = 0" "ball_after this b = b" by (simp_all add: gain_def exits_now_def ball_after_def)
    with False Cons[of this] show ?thesis by simp
  next
    case True
    with Cons[of "this\<lparr>eng_score := eng_score this + gain this b\<rparr>"] show ?thesis
      by (simp add: update_ball_eq add.assoc)
  qed
qed

lemma update_eq:
  "update this =
     (if eng_paused this then this
      else this\<lparr>eng_score := eng_score this + sum_list (map (gain this) (eng_balls this)),
                eng_balls := map (ball_after this) (eng_balls this)\<rparr>)"
  by (simp add: update_def update_balls_eq)

lemma exited_score_ball_after: "exited_score (ball_after this b) = exited_score b + gain this b"
  using before_exit_check_tags[of this b]
  by (simp add: ball_after_def gain_def exits_now_def exited_score_def updateTrail_def tags_eq_def Let_def)

definition score_conserved :: "engine \<Rightarrow> bool" where
  "score_conserved this \<longleftrightarrow> getScore this = sum_list (map exited_score (eng_balls this))"

lemma sum_list_add_map: "sum_list (map (\<lambda>b. f b + g b) bs) = sum_list (map f bs) + (sum_list (map g bs) :: int)"
  by (induction bs) auto

lemma score_conserved_update: "score_conserved this \<Longrightarrow> score_conserved (update this)"
  by (simp add: score_conserved_def getScore_def update_eq comp_def exited_score_ball_after sum_list_add_map)

lemma score_conserved_timeout: "score_conserved this \<Longrightarrow> score_conserved (exit_timeout i this)"
proof -
  assume a: "score_conserved this"
  have "map exited_score ((eng_balls this)[i := (eng_balls this ! i)\<lparr>ball_active := False\<rparr>]) = map exited_score (eng_balls this)"
    if "i < length (eng_balls this)"
    using that by (intro nth_equalityI) (auto simp: nth_list_update exited_score_def)
  with a show ?thesis by (simp add: score_conserved_def getScore_def exit_timeout_def)
qed

lemma score_conserved_call: "score_conserved this \<Longrightarrow> score_conserved (do_call c this)"
  by (cases c) (simp_all add: score_conserved_update score_conserved_timeout, simp_all add: score_conserved_def getScore_def setGravity_def setPaused_def)

lemma score_conserved_run: "score_conserved this \<Longrightarrow> score_conserved (run_calls cs this)"
  unfolding run_calls_def by (induction cs arbitrary: this) (simp_all add: score_conserved_call)

lemma score_conserved_init: "score_conserved (physics_init sp ws zs mw mh r this)"
proof -
  have "sum_list (map exited_score (map f (enumerate 0 sp))) = 0"
    if "\<And>p. exited_score (f p) = 0" for f :: "nat \<times> real \<times> real \<Rightarrow> ball"
    using that by (induction "enumerate 0 sp") (simp_all add: comp_def)
  then show ?thesis
    by (simp add: score_conserved_def getScore_def physics_init_def Let_def exited_score_def new_Ball_def split_def)
qed

text \<open>
  Claim C4: at every point after \<^verbatim>\<open>init\<close> and any sequence of \<^verbatim>\<open>update\<close>,
  \<^verbatim>\<open>setGravity\<close> and \<^verbatim>\<open>setPaused\<close> calls (and of exit timers firing in between),
  \<^verbatim>\<open>getScore()\<close> is the sum of \<^verbatim>\<open>ball.score\<close> over the balls with \<^verbatim>\<open>exited == true\<close>.
\<close>

theorem score_conservation:
  "getScore (run_calls cs (physics_init spawnPositions walls exitZones mazeWidth mazeHeight radius this)) =
     sum_list (map (\<lambda>b. if ball_exited b then ball_score b else 0)
        (eng_balls (run_calls cs (physics_init spawnPositions walls exitZones mazeWidth mazeHeight radius this))))"
  using score_conserved_run[OF score_conserved_init, of cs spawnPositions walls exitZones mazeWidth mazeHeight radius this]
  by (simp add: score_conserved_def exited_score_def[abs_def])

subsection \<open>Exit detection and scoring\<close>

text \<open>
  The claim's words: the score awarded is that of the first zone, in list order, whose
  span contains \<open>x\<close>, or 50 when no zone does.
\<close>

definition in_span :: "exit_zone \<Rightarrow> real \<Rightarrow> bool" where
  "in_span zone x \<longleftrightarrow> x \<ge> zone_x zone \<and> x \<le> zone_x zone + zone_width zone"

definition first_match_score :: "exit_zone list \<Rightarrow> real \<Rightarrow> int \<Rightarrow> bool" where
  "first_match_score zs x a \<longleftrightarrow>
     (\<exists>i<length zs. in_span (zs ! i) x \<and> (\<forall>j<i. \<not> in_span (zs ! j) x) \<and> a = zone_score (zs ! i))
     \<or> ((\<forall>i<length zs. \<not> in_span (zs ! i) x) \<and> a = 50)"

lemma find_zone_None: "find_zone zs x = None \<longleftrightarrow> (\<forall>i<length zs. \<not> in_span (zs ! i) x)"
proof (induction zs)
  case Nil
  show ?case by simp
next
  case (Cons z zs)
  show ?case
    by (auto simp: Cons in_span_def nth_Cons split: nat.splits) 
qed

lemma find_zone_Some:
  "find_zone zs x = Some z \<Longrightarrow>
     \<exists>i<length zs. z = zs ! i \<and> in_span (zs ! i) x \<and> (\<forall>j<i. \<not> in_span (zs ! j) x)"
proof (induction zs)
  case Nil
  then show ?case by simp
next
  case (Cons z' zs)
  show ?case
  proof (cases "in_span z' x")
    case True
    with Cons.prems have "z = z'" by (simp add: in_span_def)
    with True show ?thesis by (intro exI[of _ 0]) simp
  next
    case False
    with Cons.prems have "find_zone zs x = Some z" by (auto simp: in_span_def split: if_splits)
    from Cons.IH[OF this] obtain i where i: "i < length zs" "z = zs ! i" "in_span (zs ! i) x"
      "\<forall>j<i. \<not> in_span (zs ! j) x" by blast
    have "\<forall>j<Suc i. \<not> in_span ((z' # zs) ! j) x"
      using i(4) False by (auto simp: nth_Cons split: nat.splits)
    with i show ?thesis by (intro exI[of _ "Suc i"]) simp
  qed
qed

lemma award_first_match: "first_match_score zs x (award zs x)"
proof (cases "find_zone zs x")
  case None
  then have "\<forall>i<length zs. \<not> in_span (zs ! i) x" by (simp add: find_zone_None)
  with None show ?thesis by (simp add: first_match_score_def award_def)
next
  case (Some z)
  from find_zone_Some[OF Some] Some show ?thesis
    by (auto simp: first_match_score_def award_def)
qed

lemma sum_list_nth_sum: "sum_list (map f xs) = (\<Sum>k<length xs. f (xs ! k))" for f :: "'a \<Rightarrow> int"
proof -
  have "sum_list (map f xs) = (\<Sum>k = 0..<length (map f xs). map f xs ! k)"
    by (rule sum_list_sum_nth)
  also have "\<dots> = (\<Sum>k<length xs. f (xs ! k))"
    by (intro sum.cong) (auto simp: lessThan_atLeast0)
  finally show ?thesis .
qed

lemma ball_after_facts:
  "ball_exited (ball_after this b) \<longleftrightarrow> ball_exited b \<or> exits_now this b"
  "exits_now this b \<Longrightarrow> ball_score (ball_after this b) = award (eng_exitZones this) (ball_x (before_exit_check this b))"
  "\<not> exits_now this b \<Longrightarrow> ball_score (ball_after this b) = ball_score b"
  using before_exit_check_tags[of this b]
  by (auto simp: ball_after_def updateTrail_def tags_eq_def Let_def exits_now_def)

lemma gain_as_new_exit:
  "gain this b = (if \<not> ball_exited b \<and> ball_exited (ball_after this b) then ball_score (ball_after this b) else 0)"
  using ball_after_facts[of this b] by (auto simp: gain_def exits_now_def)

text \<open>
  Claim C3: in a call of \<^verbatim>\<open>update\<close> on an engine that is not paused, an active ball is
  marked exited exactly when it was exited before or its y-position, after the move and
  the collision handling of this call, exceeds the maze height; a ball that exits in this
  call gets the score of the first zone in list order whose span contains its x-position
  (so on a boundary shared by two zones the left one wins), or 50 if there is none; the
  score of a ball that was exited before, or does not exit, is unchanged; and the total of
  the engine grows in this call by the scores of the balls that exit in it.
\<close>

theorem exit_scoring:
  assumes "\<not> eng_paused this" and "i < length (eng_balls this)"
    and "ball_active (eng_balls this ! i)"
  shows "let b = eng_balls this ! i;
             m = before_exit_check this b;
             b' = eng_balls (update this) ! i
         in (ball_exited b' \<longleftrightarrow> ball_exited b \<or> ball_y m > eng_mazeHeight this) \<and>
            (\<not> ball_exited b \<and> ball_y m > eng_mazeHeight this \<longrightarrow>
               first_match_score (eng_exitZones this) (ball_x m) (ball_score b')) \<and>
            (ball_exited b \<or> \<not> ball_y m > eng_mazeHeight this \<longrightarrow> ball_score b' = ball_score b) \<and>
            getScore (update this) = getScore this +
              (\<Sum>k<length (eng_balls this).
                 if \<not> ball_exited (eng_balls this ! k) \<and> ball_exited (eng_balls (update this) ! k)
                 then ball_score (eng_balls (update this) ! k) else 0)"
proof -
  let ?b = "eng_balls this ! i"
  have balls: "eng_balls (update this) = map (ball_after this) (eng_balls this)"
    using assms(1) by (simp add: update_eq)
  have b': "eng_balls (update this) ! i = ball_after this ?b"
    using assms(2) by (simp add: balls)
  have ex: "exits_now this ?b \<longleftrightarrow> \<not> ball_exited ?b \<and> ball_y (before_exit_check this ?b) > eng_mazeHeight this"
    using assms(3) by (simp add: exits_now_def)
  have total: "getScore (update this) = getScore this +
      (\<Sum>k<length (eng_balls this).
         if \<not> ball_exited (eng_balls this ! k) \<and> ball_exited (eng_balls (update this) ! k)
         then ball_score (eng_balls (update this) ! k) else 0)"
  proof -
    have "getScore (update this) =
        getScore this + (\<Sum>k<length (eng_balls this). gain this (eng_balls this ! k))"
      using assms(1) by (simp add: getScore_def update_eq sum_list_nth_sum)
    also have "(\<Sum>k<length (eng_balls this). gain this (eng_balls this ! k)) =
      (\<Sum>k<length (eng_balls this).
         if \<not> ball_exited (eng_balls this ! k) \<and> ball_exited (eng_balls (update this) ! k)
         then ball_score (eng_balls (update this) ! k) else 0)"
      by (intro sum.cong refl) (simp add: gain_as_new_exit balls)
    finally show ?thesis .
  qed
  show ?thesis
    unfolding Let_def b'
    using ball_after_facts[of this ?b] ex award_first_match[of "eng_exitZones this" "ball_x (before_exit_check this ?b)"] total
    by (auto simp: b')
qed

subsection \<open>The fallback score\<close>

lemma upt_5: "[0..<5] = [0, 1, 2, 3, 4]"
  by code_simp

lemma buildExitZones_list:
  "buildExitZones W H c ec =
     [\<lparr>zone_x = 0, zone_y = of_int H, zone_width = real_of_int W / 5, zone_height = 45,
       zone_score = 500, zone_color = ''#4ade80'', zone_label = ''500'',
       zone_column = zone_column_of ec c 0\<rparr>,
      \<lparr>zone_x = real_of_int W / 5, zone_y = of_int H, zone_width = real_of_int W / 5, zone_height = 45,
       zone_score = 100, zone_color = ''#60a5fa'', zone_label = ''100'',
       zone_column = zone_column_of ec c 1\<rparr>,
      \<lparr>zone_x = 2 * (real_of_int W / 5), zone_y = of_int H, zone_width = real_of_int W / 5, zone_height = 45,
       zone_score = 1000, zone_color = ''#facc15'', zone_label = ''1000'',
       zone_column = zone_column_of ec c 2\<rparr>,
      \<lparr>zone_x = 3 * (real_of_int W / 5), zone_y = of_int H, zone_width = real_of_int W / 5, zone_height = 45,
       zone_score = 0, zone_color = ''#94a3b8'', zone_label = ''0'',
       zone_column = zone_column_of ec c 3\<rparr>,
      \<lparr>zone_x = 4 * (real_of_int W / 5), zone_y = of_int H, zone_width = real_of_int W / 5, zone_height = 45,
       zone_score = 250, zone_color = ''#f472b6'', zone_label = ''250'',
       zone_column = zone_column_of ec c 4\<rparr>]"
  by (simp add: buildExitZones_def Let_def exitScores_def upt_5 EXIT_CONFIG_def)

lemma zones_cover:
  assumes "0 \<le> x" "x \<le> real_of_int W"
  shows "find_zone (buildExitZones W H c ec) x \<noteq> None"
  using assms by (simp add: buildExitZones_list)

lemma handleBoundaries_x:
  assumes "0 \<le> 2 * ball_radius b" "2 * ball_radius b \<le> eng_mazeWidth this"
  shows "ball_radius b \<le> ball_x (handleBoundaries this b) \<and>
         ball_x (handleBoundaries this b) \<le> eng_mazeWidth this - ball_radius b"
  using assms by (simp add: handleBoundaries_def Let_def)

text \<open>
  Claim C10: with the five zones built by the maze generator for the width \<open>W\<close>, the same
  \<open>W\<close> as maze width of the engine and a ball radius \<open>r\<close> with \<open>0 \<le> 2r \<le> W\<close>, the x-position
  that \<^verbatim>\<open>_checkExitZones\<close> sees in \<^verbatim>\<open>update\<close> lies in \<open>[r, W - r]\<close> and some zone contains
  it: the branch that awards 50 is not taken.
\<close>

theorem fallback_score_unreachable:
  assumes "eng_exitZones this = buildExitZones W H cols exitColumns"
    and "eng_mazeWidth this = real_of_int W"
    and "0 \<le> 2 * ball_radius b" and "2 * ball_radius b \<le> real_of_int W"
  shows "ball_radius b \<le> ball_x (before_exit_check this b) \<and>
         ball_x (before_exit_check this b) \<le> real_of_int W - ball_radius b \<and>
         find_zone (eng_exitZones this) (ball_x (before_exit_check this b)) \<noteq> None"
proof -
  let ?c = "handleWallCollisions this
          (integrate (applyThreshold (clampVelocity (accelerate this b)))) (ball_x b) (ball_y b)"
  have "tags_eq ?c b"
    by (intro tags_eq_trans[OF handleWallCollisions_tags]
      tags_eq_trans[OF integrate_tags] tags_eq_trans[OF applyThreshold_tags]
      tags_eq_trans[OF clampVelocity_tags] accelerate_tags)
  then have r: "ball_radius ?c = ball_radius b" by (simp add: tags_eq_def)
  have x: "ball_radius b \<le> ball_x (before_exit_check this b) \<and>
         ball_x (before_exit_check this b) \<le> real_of_int W - ball_radius b"
    using handleBoundaries_x[of ?c this] assms(2-4) r by (simp add: before_exit_check_def)
  then have "0 \<le> ball_x (before_exit_check this b)" "ball_x (before_exit_check this b) \<le> real_of_int W"
    using assms(3) by linarith+
  from zones_cover[OF this] x show ?thesis by (simp add: assms(1))
qed

lemma clampVelocity_slow:
  assumes "ball_vx b * ball_vx b + ball_vy b * ball_vy b \<le> 144"
  shows "clampVelocity b = b"
proof -
  have "sqrt (ball_vx b * ball_vx b + ball_vy b * ball_vy b) \<le> sqrt 144"
    using assms by (simp only: real_sqrt_le_iff)
  also have "sqrt 144 = (12::real)" using real_sqrt_abs[of 12] by simp
  finally show ?thesis by (simp add: clampVelocity_def getSpeed_def PHYSICS_CONFIG_def Let_def)
qed

subsection \<open>A ball leaving the maze on the boundary of two zones\<close>

text \<open>
  An engine with the zones of a maze 100 pixels wide and one ball of radius 5 at rest at
  \<open>(20, 99.95)\<close>: \<open>x = 20\<close> is the right edge of the first zone and the left edge of the
  second. One frame of base gravity takes the ball below the maze; it scores the 500 of the
  first zone.
\<close>

definition demo_engine :: engine where
  "demo_engine = physics_init [(20, 99.95)] [] (buildExitZones 100 100 11 []) 100 100 (Some 5) new_PhysicsEngine"

lemma demo_engine_eq:
  "demo_engine =
    \<lparr>eng_balls = [\<lparr>ball_x = 20, ball_y = 99.95, ball_vx = 0, ball_vy = 0, ball_radius = 5,
                     ball_index = 0, ball_active = True, ball_exited = False, ball_score = 0,
                     ball_trail = []\<rparr>],
      eng_gravity_x = 0, eng_gravity_y = 0, eng_paused = False, eng_score = 0,
      eng_walls = [], eng_exitZones = buildExitZones 100 100 11 [], eng_mazeWidth = 100, eng_mazeHeight = 100,
      eng_ballRadius = Some 5, eng_onBallExit = False, eng_onWallHit = False\<rparr>"
  by (simp add: demo_engine_def physics_init_def new_PhysicsEngine_def new_Ball_def radius_or_default_def Let_def)

lemma demo_before_exit_check:
  "before_exit_check demo_engine (eng_balls demo_engine ! 0) =
     \<lparr>ball_x = 20, ball_y = 100.0664, ball_vx = 0, ball_vy = 0.1164, ball_radius = 5,
                     ball_index = 0, ball_active = True, ball_exited = False, ball_score = 0,
                     ball_trail = []\<rparr>"
proof -
  let ?b = "eng_balls demo_engine ! 0"
  have a: "accelerate demo_engine ?b = ?b\<lparr>ball_vy := 0.1164\<rparr>"
    by (simp add: demo_engine_eq accelerate_def PHYSICS_CONFIG_def Let_def)
  have c: "clampVelocity (?b\<lparr>ball_vy := 0.1164\<rparr>) = ?b\<lparr>ball_vy := 0.1164\<rparr>"
    by (rule clampVelocity_slow) (simp add: demo_engine_eq)
  have t: "applyThreshold (?b\<lparr>ball_vy := 0.1164\<rparr>) = ?b\<lparr>ball_vy := 0.1164\<rparr>"
    by (simp add: demo_engine_eq applyThreshold_def PHYSICS_CONFIG_def Let_def)
  have i: "integrate (?b\<lparr>ball_vy := 0.1164\<rparr>) = ?b\<lparr>ball_vy := 0.1164, ball_y := 100.0664\<rparr>"
    by (simp add: demo_engine_eq integrate_def)
  have w: "handleWallCollisions demo_engine bb px py = bb" for bb px py
    by (simp add: handleWallCollisions_def demo_engine_eq)
  have h: "handleBoundaries demo_engine (?b\<lparr>ball_vy := 0.1164, ball_y := 100.0664\<rparr>) = ?b\<lparr>ball_vy := 0.1164, ball_y := 100.0664\<rparr>"
    by (simp add: demo_engine_eq handleBoundaries_def Let_def)
  show ?thesis
    unfolding before_exit_check_def a c t i w h by (simp add: demo_engine_eq)
qed

lemma shared_boundary_left_zone_wins:
  assumes "0 < W"
  shows "find_zone (buildExitZones W H c ec) (zone_x (buildExitZones W H c ec ! 1)) = Some (buildExitZones W H c ec ! 0)"
    and "find_zone (buildExitZones W H c ec) (zone_x (buildExitZones W H c ec ! 2)) = Some (buildExitZones W H c ec ! 1)"
    and "find_zone (buildExitZones W H c ec) (zone_x (buildExitZones W H c ec ! 3)) = Some (buildExitZones W H c ec ! 2)"
    and "find_zone (buildExitZones W H c ec) (zone_x (buildExitZones W H c ec ! 4)) = Some (buildExitZones W H c ec ! 3)"
  using assms by (simp_all add: buildExitZones_list)

lemma demo_score: "ball_score (eng_balls (update demo_engine) ! 0) = 500 \<and> getScore (update demo_engine) = 500"
proof -
  have h3: "ball_active (eng_balls demo_engine ! 0)" by (simp add: demo_engine_eq)
  have h4: "\<not> ball_exited (eng_balls demo_engine ! 0)" by (simp add: demo_engine_eq)
  have h5: "ball_y (before_exit_check demo_engine (eng_balls demo_engine ! 0)) > eng_mazeHeight demo_engine"
    unfolding demo_before_exit_check by (simp add: demo_engine_eq)
  have ex: "exits_now demo_engine (eng_balls demo_engine ! 0)" using h3 h4 h5 by (simp add: exits_now_def)
  have aw: "award (eng_exitZones demo_engine) 20 = 500"
    by (simp add: demo_engine_eq award_def buildExitZones_list)
  have g: "gain demo_engine (eng_balls demo_engine ! 0) = 500"
    using ex aw by (simp add: gain_def demo_before_exit_check)
  have bs: "eng_balls demo_engine = [eng_balls demo_engine ! 0]" by (simp add: demo_engine_eq)
  have p: "\<not> eng_paused demo_engine" "eng_score demo_engine = 0" by (simp_all add: demo_engine_eq)
  have "ball_score (ball_after demo_engine (eng_balls demo_engine ! 0)) = 500"
    using ball_after_facts(2)[OF ex] aw by (simp add: demo_before_exit_check)
  moreover have m: "map (ball_after demo_engine) (eng_balls demo_engine) =
      [ball_after demo_engine (eng_balls demo_engine ! 0)]"
    by (subst bs) simp
  moreover have "sum_list (map (gain demo_engine) (eng_balls demo_engine)) = 500"
    by (subst bs) (simp add: g)
  then have "update demo_engine = demo_engine\<lparr>eng_score := 500, eng_balls := [ball_after demo_engine (eng_balls demo_engine ! 0)]\<rparr>"
    using p m by (simp add: update_eq)
  ultimately show ?thesis by (simp add: getScore_def)
qed

theorem exit_scoring_witness:
  "\<not> eng_paused demo_engine \<and> 0 < length (eng_balls demo_engine) \<and>
   ball_active (eng_balls demo_engine ! 0) \<and>
   \<not> ball_exited (eng_balls demo_engine ! 0) \<and>
   ball_y (before_exit_check demo_engine (eng_balls demo_engine ! 0)) > eng_mazeHeight demo_engine \<and>
   ball_exited (eng_balls (update demo_engine) ! 0) \<and>
   first_match_score (eng_exitZones demo_engine) 20 (ball_score (eng_balls (update demo_engine) ! 0)) \<and>
   ball_score (eng_balls (update demo_engine) ! 0) = 500 \<and> getScore (update demo_engine) = 500"
proof -
  have h1: "\<not> eng_paused demo_engine" by (simp add: demo_engine_eq)
  have h2: "0 < length (eng_balls demo_engine)" by (simp add: demo_engine_eq)
  have h3: "ball_active (eng_balls demo_engine ! 0)" by (simp add: demo_engine_eq)
  have h4: "\<not> ball_exited (eng_balls demo_engine ! 0)" by (simp add: demo_engine_eq)
  have h5: "ball_y (before_exit_check demo_engine (eng_balls demo_engine ! 0)) > eng_mazeHeight demo_engine"
    unfolding demo_before_exit_check by (simp add: demo_engine_eq)
  have h6: "ball_x (before_exit_check demo_engine (eng_balls demo_engine ! 0)) = 20"
    unfolding demo_before_exit_check by simp
  from exit_scoring[OF h1 h2 h3] h4 h5 h6 have
    "ball_exited (eng_balls (update demo_engine) ! 0) \<and>
     first_match_score (eng_exitZones demo_engine) 20 (ball_score (eng_balls (update demo_engine) ! 0))"
    by (simp add: Let_def)
  with h1 h2 h3 h4 h5 demo_score show ?thesis by simp
qed

theorem fallback_score_unreachable_witness:
  "eng_exitZones demo_engine = buildExitZones 100 100 11 [] \<and>
   eng_mazeWidth demo_engine = real_of_int 100 \<and>
   0 \<le> 2 * ball_radius (eng_balls demo_engine ! 0) \<and>
   2 * ball_radius (eng_balls demo_engine ! 0) \<le> real_of_int 100 \<and>
   find_zone (eng_exitZones demo_engine)
      (ball_x (before_exit_check demo_engine (eng_balls demo_engine ! 0))) \<noteq> None"
proof -
  have h1: "eng_exitZones demo_engine = buildExitZones 100 100 11 []" by (simp add: demo_engine_eq)
  have h2: "eng_mazeWidth demo_engine = real_of_int 100" by (simp add: demo_engine_eq)
  have h3: "0 \<le> 2 * ball_radius (eng_balls demo_engine ! 0)" by (simp add: demo_engine_eq)
  have h4: "2 * ball_radius (eng_balls demo_engine ! 0) \<le> real_of_int 100" by (simp add: demo_engine_eq)
  from fallback_score_unreachable[OF h1 h2 h3 h4] h1 h2 h3 h4 show ?thesis by simp
qed

subsection \<open>Wall collisions\<close>

text \<open>
  The distance of the centre of a ball from the closest point of a wall rectangle, as
  \<^verbatim>\<open>_handleWallCollisions\<close> computes it.
\<close>

definition closest_x :: "ball \<Rightarrow> wall_rect \<Rightarrow> real" where
  "closest_x b w = max (wall_x w) (min (ball_x b) (wall_x w + wall_width w))"

definition closest_y :: "ball \<Rightarrow> wall_rect \<Rightarrow> real" where
  "closest_y b w = max (wall_y w) (min (ball_y b) (wall_y w + wall_height w))"

definition wall_distance :: "ball \<Rightarrow> wall_rect \<Rightarrow> real" where
  "wall_distance b w =
     sqrt ((ball_x b - closest_x b w) * (ball_x b - closest_x b w) +
           (ball_y b - closest_y b w) * (ball_y b - closest_y b w))"





lemma wall_distance_cong:
  "ball_x b' = ball_x b \<Longrightarrow> ball_y b' = ball_y b \<Longrightarrow> wall_distance b' w = wall_distance b w"
  by (simp add: wall_distance_def closest_x_def closest_y_def)




















end
